theory Spec2Isabelle
  imports Complex_Main
begin

section \<open>JavaScript values and strings\<close>

text \<open>
  Strings are \<^typ>\<open>string\<close>: a character stands for the UTF-16 code unit with the same
  number, so the model covers the strings whose code units are below 256 (Latin-1).
  \<open>isWhiteSpace\<close> is the set that \<open>String.prototype.trim\<close> strips (WhiteSpace and
  LineTerminator of ECMAScript) restricted to that range: TAB, LF, VT, FF, CR, SPACE, NBSP.
\<close>

definition isWhiteSpace :: "char \<Rightarrow> bool" where
  "isWhiteSpace c = (of_char c \<in> {9, 10, 11, 12, 13, 32, 160 :: nat})"

definition trim :: "string \<Rightarrow> string" where
  "trim s = rev (dropWhile isWhiteSpace (rev (dropWhile isWhiteSpace s)))"

text \<open>\<open>String.prototype.toLowerCase\<close> on Latin-1: A-Z and the accented capitals
  0xC0-0xDE (without the multiplication sign 0xD7) move up by 32, which sets the bit of
  weight 32.\<close>

definition toLowerChar :: "char \<Rightarrow> char" where
  "toLowerChar c =
     (let n = (of_char c :: nat)
      in if (65 \<le> n \<and> n \<le> 90) \<or> (192 \<le> n \<and> n \<le> 222 \<and> n \<noteq> 215)
         then (case c of Char b0 b1 b2 b3 b4 b5 b6 b7 \<Rightarrow> Char b0 b1 b2 b3 b4 True b6 b7)
         else c)"

definition toLowerCase :: "string \<Rightarrow> string" where
  "toLowerCase s = map toLowerChar s"

text \<open>
  A JavaScript number is a finite value, NaN or one of the infinities. The finite values
  are carried exactly: as \<^typ>\<open>int\<close> where the program reads an index (\<open>auth_index\<close>),
  as \<^typ>\<open>rat\<close> where it reads a percentage or a fraction (every finite double is a
  rational number, and comparison, \<open>Math.min\<close> and \<open>Math.max\<close> of doubles are exact).
\<close>

datatype 'a jsnum = Finite 'a | NaN | PosInfinity | NegInfinity

text \<open>A value of type \<open>unknown\<close>, as it arrives from a JSON payload.\<close>

datatype 'a jsval =
    JUndefined
  | JNull
  | JBool bool
  | JNum "'a jsnum"
  | JStr string
  | JObject

text \<open>\<open>a ?? b\<close>: the right operand only when the left one is \<open>null\<close> or \<open>undefined\<close>.\<close>

definition nullish :: "'a jsval \<Rightarrow> 'a jsval \<Rightarrow> 'a jsval" where
  "nullish a b = (if a = JUndefined \<or> a = JNull then b else a)"

text \<open>
  \<open>Number.prototype.toString()\<close> of an integer-valued number below \<open>10^21\<close> in absolute
  value: the decimal digits, with a minus sign for a negative number. (From \<open>10^21\<close> on
  JavaScript switches to exponent notation, which is outside this model.)
\<close>

fun decimal :: "nat \<Rightarrow> string" where
  "decimal n =
     (if n < 10 then [''0123456789'' ! n]
      else decimal (n div 10) @ [''0123456789'' ! (n mod 10)])"

declare decimal.simps [simp del]

definition Number_toString :: "int \<Rightarrow> string" where
  "Number_toString i = (if i < 0 then CHR ''-'' # decimal (nat (- i)) else decimal (nat i))"


section \<open>Identity normalizer (pages/AuthFilesPage.tsx)\<close>

text \<open>
  \<^verbatim>\<open>
  function normalizeAuthIndexValue(value: unknown): string | null {
    if (typeof value === 'number' && Number.isFinite(value)) return value.toString();
    if (typeof value === 'string') {
      const trimmed = value.trim();
      return trimmed ? trimmed : null;
    }
    return null;
  }
  \<close>
\<close>

fun normalizeAuthIndexValue :: "int jsval \<Rightarrow> string option" where
  "normalizeAuthIndexValue (JNum (Finite n)) = Some (Number_toString n)"
| "normalizeAuthIndexValue (JStr s) =
     (let trimmed = trim s in if trimmed \<noteq> [] then Some trimmed else None)"
| "normalizeAuthIndexValue _ = None"


section \<open>Auth files and usage statistics\<close>

text \<open>
  Modelled from the spec: \<open>KeyStatBucket\<close> and \<open>KeyStats\<close> are declared in \<open>utils/usage\<close>,
  which is not among the sources. The spec gives a bucket as two counters, integers that
  are never negative, and \<open>KeyStats\<close> as two maps from a key to a bucket.
\<close>

record KeyStatBucket =
  success :: nat
  failure :: nat

record KeyStats =
  bySource :: "string \<rightharpoonup> KeyStatBucket"
  byAuthIndex :: "string \<rightharpoonup> KeyStatBucket"

text \<open>
  \<open>CodexQuota\<close> and \<open>AuthFileItem\<close> of \<open>types/authFile.ts\<close>, with the fields this
  development reads. An optional field is an \<open>option\<close>; a field the code inspects with
  \<open>typeof\<close> is a \<open>jsval\<close>.
\<close>

record CodexQuota =
  primary_used_percent :: "rat jsval"
  secondary_used_percent :: "rat jsval"

record AuthFileItem =
  file_id :: "string option"
  name :: string
  file_type :: "string option"
  provider :: "string option"
  auth_index :: "int jsval"
  authIndex :: "int jsval"
  runtime_only :: "int jsval"
  runtimeOnly :: "int jsval"
  disabled :: bool
  codex_quota :: "CodexQuota option"

text \<open>
  \<open>rawFileName.replace(/\.[^/.]+$/, '')\<close>: the pattern can only match at the last dot,
  and does so when at least one character follows it and none of them is a slash; the
  match, from that dot to the end, is removed. Otherwise the string is returned as it is.
\<close>

definition removeExtension :: "string \<Rightarrow> string" where
  "removeExtension s =
     (let ext = takeWhile (\<lambda>c. c \<noteq> CHR ''.'') (rev s)
      in if length ext < length s \<and> ext \<noteq> [] \<and> CHR ''/'' \<notin> set ext
         then take (length s - length ext - 1) s
         else s)"

definition nonzero :: "KeyStatBucket \<Rightarrow> bool" where
  "nonzero b = (success b > 0 \<or> failure b > 0)"

text \<open>
  \<^verbatim>\<open>
  function resolveAuthFileStats(file: AuthFileItem, stats: KeyStats): KeyStatBucket {
    const defaultStats: KeyStatBucket = { success: 0, failure: 0 };
    const rawFileName = file?.name || '';
    const rawAuthIndex = file['auth_index'] ?? file.authIndex;
    const authIndexKey = normalizeAuthIndexValue(rawAuthIndex);
    if (authIndexKey && stats.byAuthIndex?.[authIndexKey]) return stats.byAuthIndex[authIndexKey];
    if (rawFileName && stats.bySource?.[rawFileName]) {
      const fromName = stats.bySource[rawFileName];
      if (fromName.success > 0 || fromName.failure > 0) return fromName;
    }
    if (rawFileName) {
      const nameWithoutExt = rawFileName.replace(/\.[^/.]+$/, '');
      if (nameWithoutExt && nameWithoutExt !== rawFileName) {
        const fromNameWithoutExt = stats.bySource?.[nameWithoutExt];
        if (fromNameWithoutExt && (fromNameWithoutExt.success > 0 || fromNameWithoutExt.failure > 0))
          return fromNameWithoutExt;
      }
    }
    return defaultStats;
  }
  \<close>
  The three attempts are three functions, each returning the bucket it settles on, if any.
\<close>

definition statsFromAuthIndex :: "AuthFileItem \<Rightarrow> KeyStats \<Rightarrow> KeyStatBucket option" where
  "statsFromAuthIndex file stats =
     (let rawAuthIndex = nullish (auth_index file) (authIndex file);
          authIndexKey = normalizeAuthIndexValue rawAuthIndex
      in case authIndexKey of
           None \<Rightarrow> None
         | Some k \<Rightarrow> if k \<noteq> [] then byAuthIndex stats k else None)"

definition statsFromName :: "string \<Rightarrow> KeyStats \<Rightarrow> KeyStatBucket option" where
  "statsFromName rawFileName stats =
     (if rawFileName \<noteq> [] then
        (case bySource stats rawFileName of
           None \<Rightarrow> None
         | Some fromName \<Rightarrow> if nonzero fromName then Some fromName else None)
      else None)"

definition statsFromNameWithoutExt :: "string \<Rightarrow> KeyStats \<Rightarrow> KeyStatBucket option" where
  "statsFromNameWithoutExt rawFileName stats =
     (if rawFileName \<noteq> [] then
        (let nameWithoutExt = removeExtension rawFileName
         in if nameWithoutExt \<noteq> [] \<and> nameWithoutExt \<noteq> rawFileName then
              (case bySource stats nameWithoutExt of
                 None \<Rightarrow> None
               | Some fromNameWithoutExt \<Rightarrow>
                   if nonzero fromNameWithoutExt then Some fromNameWithoutExt else None)
            else None)
      else None)"

definition resolveAuthFileStats :: "AuthFileItem \<Rightarrow> KeyStats \<Rightarrow> KeyStatBucket" where
  "resolveAuthFileStats file stats =
     (let defaultStats = \<lparr>success = 0, failure = 0\<rparr>;
          rawFileName = name file
      in case statsFromAuthIndex file stats of
           Some b \<Rightarrow> b
         | None \<Rightarrow>
            (case statsFromName rawFileName stats of
               Some b \<Rightarrow> b
             | None \<Rightarrow>
                (case statsFromNameWithoutExt rawFileName stats of
                   Some b \<Rightarrow> b
                 | None \<Rightarrow> defaultStats)))"

section \<open>Codex quota: remaining percent\<close>





section \<open>Excluded models as text (components/providers/utils.ts)\<close>

text \<open>
  \<open>text.split(/[\n,]+/)\<close>: the fields between maximal runs of line feeds and commas. A
  run at the start or at the end of the text leaves an empty first or last field, and
  the empty text gives one empty field.
\<close>

definition isSeparator :: "char \<Rightarrow> bool" where
  "isSeparator c = (c = CHR 0x0A \<or> c = CHR '','')"

function splitFields :: "string \<Rightarrow> string \<Rightarrow> string list" where
  "splitFields field [] = [rev field]"
| "splitFields field (c # cs) =
     (if isSeparator c then rev field # splitFields [] (dropWhile isSeparator cs)
      else splitFields (c # field) cs)"
  by pat_completeness auto
termination
  by (relation "measure (\<lambda>(field, rest). length rest)")
     (auto simp: less_Suc_eq_le length_dropWhile_le)

definition split_newline_comma :: "string \<Rightarrow> string list" where
  "split_newline_comma text = splitFields [] text"

text \<open>\<open>models.join('\n')\<close>.\<close>

fun join_newline :: "string list \<Rightarrow> string" where
  "join_newline [] = []"
| "join_newline [x] = x"
| "join_newline (x # y # ys) = x @ CHR 0x0A # join_newline (y # ys)"

text \<open>
  \<^verbatim>\<open>
  export const parseExcludedModels = (text: string): string[] =>
    text.split(/[\n,]+/).map((item) => item.trim()).filter(Boolean);

  export const excludedModelsToText = (models?: string[]) =>
    Array.isArray(models) ? models.join('\n') : '';
  \<close>
\<close>

definition parseExcludedModels :: "string \<Rightarrow> string list" where
  "parseExcludedModels text =
     filter (\<lambda>item. item \<noteq> []) (map trim (split_newline_comma text))"

definition excludedModelsToText :: "string list option \<Rightarrow> string" where
  "excludedModelsToText models = (case models of Some ms \<Rightarrow> join_newline ms | None \<Rightarrow> [])"


section \<open>The auth files page: state and handlers (pages/AuthFilesPage.tsx)\<close>

text \<open>
  \<^verbatim>\<open>
  function isRuntimeOnlyAuthFile(file: AuthFileItem): boolean {
    const raw = file['runtime_only'] ?? file.runtimeOnly;
    if (typeof raw === 'boolean') return raw;
    if (typeof raw === 'string') return raw.trim().toLowerCase() === 'true';
    return false;
  }
  \<close>
\<close>

definition isRuntimeOnlyAuthFile :: "AuthFileItem \<Rightarrow> bool" where
  "isRuntimeOnlyAuthFile file =
     (let raw = nullish (runtime_only file) (runtimeOnly file)
      in case raw of
           JBool b \<Rightarrow> b
         | JStr s \<Rightarrow> toLowerCase (trim s) = ''true''
         | _ \<Rightarrow> False)"

text \<open>
  The outcome of an awaited backend call: the resolved value, or the rejection, which
  carries a message when the thrown value is an \<open>Error\<close>.
\<close>

datatype 'a api_result = Resolved 'a | Rejected "string option"

datatype level = success_level | error_level | info_level | warning_level

text \<open>
  The part of the component state that the handlers below write. A notification is the
  message (a translation key stands for its translation) and its level.
\<close>

record page_state =
  files :: "AuthFileItem list"
  error :: string
  loading :: bool
  type_filter :: string
  deletingAll :: bool
  refreshingQuota :: "string set"
  notifications :: "(string \<times> level) list"

definition showNotification :: "string \<Rightarrow> level \<Rightarrow> page_state \<Rightarrow> page_state" where
  "showNotification msg lv st = st\<lparr>notifications := notifications st @ [(msg, lv)]\<rparr>"

definition errorMessageOr :: "string option \<Rightarrow> string \<Rightarrow> string" where
  "errorMessageOr thrown fallback = (case thrown of Some m \<Rightarrow> m | None \<Rightarrow> fallback)"

text \<open>
  \<^verbatim>\<open>
  const loadFiles = useCallback(async () => {
    setLoading(true); setError('');
    try { const data = await authFilesApi.list(); setFiles(data?.files || []); }
    catch (err) { setError(err instanceof Error ? err.message : t('notification.refresh_failed')); }
    finally { setLoading(false); }
  }, [t]);
  \<close>
  \<open>listed\<close> is the outcome of \<open>authFilesApi.list()\<close>, with \<open>None\<close> for a response without
  a file list.
\<close>

definition loadFiles :: "AuthFileItem list option api_result \<Rightarrow> page_state \<Rightarrow> page_state" where
  "loadFiles listed st =
     (let st1 = st\<lparr>loading := True, error := []\<rparr>;
          st2 = (case listed of
                   Resolved data \<Rightarrow> st1\<lparr>files := (case data of Some fs \<Rightarrow> fs | None \<Rightarrow> [])\<rparr>
                 | Rejected thrown \<Rightarrow>
                     st1\<lparr>error := errorMessageOr thrown ''notification.refresh_failed''\<rparr>)
      in st2\<lparr>loading := False\<rparr>)"

text \<open>
  The identity of a record in requests and in the list:
  \<open>item.id ? String(item.id).trim() : String(item.name || '').trim()\<close>.
\<close>

definition authIdentity :: "AuthFileItem \<Rightarrow> string" where
  "authIdentity item =
     (case file_id item of
        Some i \<Rightarrow> if i \<noteq> [] then trim i else trim (name item)
      | None \<Rightarrow> trim (name item))"

text \<open>The updater given to \<open>setFiles\<close> after a refresh:
  \<open>prev.map((f) => { const fid = ...; return fid === authID ? updated : f; })\<close>.\<close>

definition replaceAuthFile ::
  "string \<Rightarrow> AuthFileItem \<Rightarrow> AuthFileItem list \<Rightarrow> AuthFileItem list" where
  "replaceAuthFile authID updated prev =
     map (\<lambda>f. if authIdentity f = authID then updated else f) prev"

text \<open>
  \<open>refreshAntigravityQuota\<close> and \<open>refreshCodexQuota\<close> have the same body, up to the
  backend call:
  \<^verbatim>\<open>
  const authID = item.id ? String(item.id).trim() : String(item.name || '').trim();
  if (!authID) return;
  setRefreshingQuota((prev) => ({ ...prev, [authID]: true }));
  try {
    const data = await authFilesApi.refreshAntigravityQuota(authID);
    const updated = data && (data as any).auth ? ((data as any).auth as AuthFileItem) : null;
    if (updated) { setFiles((prev) => prev.map(...)); } else { await loadFiles(); }
    showNotification(t('auth_files.refresh_quota_success', ...), 'success');
  } catch (err) {
    showNotification(err instanceof Error ? err.message : t('notification.refresh_failed'), 'error');
  } finally {
    setRefreshingQuota((prev) => { const next = { ...prev }; delete next[authID]; return next; });
  }
  \<close>
  \<open>call\<close> is the backend call, from the identity to its outcome; a resolved value is the
  \<open>auth\<close> record of the response, if it has one.
\<close>

definition refreshQuotaWith ::
  "(string \<Rightarrow> AuthFileItem option api_result) \<Rightarrow> AuthFileItem list option api_result
     \<Rightarrow> AuthFileItem \<Rightarrow> page_state \<Rightarrow> page_state" where
  "refreshQuotaWith call listed item st =
     (let authID = authIdentity item
      in if authID = [] then st
         else
           (let st1 = st\<lparr>refreshingQuota := insert authID (refreshingQuota st)\<rparr>;
                st2 = (case call authID of
                         Resolved (Some updated) \<Rightarrow>
                           showNotification ''auth_files.refresh_quota_success'' success_level
                             (st1\<lparr>files := replaceAuthFile authID updated (files st1)\<rparr>)
                       | Resolved None \<Rightarrow>
                           showNotification ''auth_files.refresh_quota_success'' success_level
                             (loadFiles listed st1)
                       | Rejected thrown \<Rightarrow>
                           showNotification (errorMessageOr thrown ''notification.refresh_failed'')
                             error_level st1)
            in st2\<lparr>refreshingQuota := refreshingQuota st2 - {authID}\<rparr>))"

record backend =
  api_refreshAntigravityQuota :: "string \<Rightarrow> AuthFileItem option api_result"
  api_refreshCodexQuota :: "string \<Rightarrow> string \<Rightarrow> AuthFileItem option api_result"
  api_list :: "AuthFileItem list option api_result"
  api_deleteAll :: "unit api_result"
  api_deleteFile :: "string \<Rightarrow> unit api_result"

definition refreshAntigravityQuota :: "backend \<Rightarrow> AuthFileItem \<Rightarrow> page_state \<Rightarrow> page_state" where
  "refreshAntigravityQuota api item st =
     refreshQuotaWith (api_refreshAntigravityQuota api) (api_list api) item st"

definition refreshCodexQuota :: "backend \<Rightarrow> AuthFileItem \<Rightarrow> page_state \<Rightarrow> page_state" where
  "refreshCodexQuota api item st =
     refreshQuotaWith (\<lambda>authID. api_refreshCodexQuota api authID ''gpt-5.2'') (api_list api) item st"


text \<open>
  \<^verbatim>\<open>
  const handleDeleteAll = async () => {
    const isFiltered = filter !== 'all';
    ...
    if (!window.confirm(confirmMessage)) return;
    setDeletingAll(true);
    try {
      if (!isFiltered) {
        await authFilesApi.deleteAll();
        showNotification(t('auth_files.delete_all_success'), 'success');
        setFiles((prev) => prev.filter((file) => isRuntimeOnlyAuthFile(file)));
      } else {
        const filesToDelete = files.filter((f) => f.type === filter && !isRuntimeOnlyAuthFile(f));
        if (filesToDelete.length === 0) {
          showNotification(t('auth_files.delete_filtered_none', { type: typeLabel }), 'info');
          setDeletingAll(false);
          return;
        }
        let success = 0; let failed = 0; const deletedNames: string[] = [];
        for (const file of filesToDelete) {
          try { await authFilesApi.deleteFile(file.name); success++; deletedNames.push(file.name); }
          catch { failed++; }
        }
        setFiles((prev) => prev.filter((f) => !deletedNames.includes(f.name)));
        if (failed === 0) showNotification(..., 'success'); else showNotification(..., 'warning');
        setFilter('all');
      }
    } catch (err) {
      showNotification(`${t('notification.delete_failed')}: ${errorMessage}`, 'error');
    } finally { setDeletingAll(false); }
  };
  \<close>
  \<open>confirmed\<close> is the answer of \<open>window.confirm\<close>.
\<close>

definition deleteSucceeds :: "backend \<Rightarrow> AuthFileItem \<Rightarrow> bool" where
  "deleteSucceeds api f = (case api_deleteFile api (name f) of Resolved _ \<Rightarrow> True | Rejected _ \<Rightarrow> False)"

definition handleDeleteAll :: "backend \<Rightarrow> bool \<Rightarrow> page_state \<Rightarrow> page_state" where
  "handleDeleteAll api confirmed st =
     (let isFiltered = (type_filter st \<noteq> ''all'')
      in if \<not> confirmed then st
         else
           (let st1 = st\<lparr>deletingAll := True\<rparr>;
                st2 =
                  (if \<not> isFiltered then
                     (case api_deleteAll api of
                        Resolved _ \<Rightarrow>
                          (showNotification ''auth_files.delete_all_success'' success_level st1)
                            \<lparr>files := filter isRuntimeOnlyAuthFile (files st1)\<rparr>
                      | Rejected thrown \<Rightarrow>
                          showNotification
                            (''notification.delete_failed'' @ '': '' @ errorMessageOr thrown [])
                            error_level st1)
                   else
                     (let filesToDelete =
                            filter (\<lambda>f. file_type f = Some (type_filter st) \<and> \<not> isRuntimeOnlyAuthFile f)
                              (files st)
                      in if filesToDelete = [] then
                           showNotification ''auth_files.delete_filtered_none'' info_level st1
                         else
                           (let deletedNames = map name (filter (deleteSucceeds api) filesToDelete);
                                failed = length filesToDelete - length deletedNames;
                                st3 = st1\<lparr>files := filter (\<lambda>f. name f \<notin> set deletedNames) (files st1)\<rparr>;
                                st4 = (if failed = 0
                                       then showNotification ''auth_files.delete_filtered_success''
                                              success_level st3
                                       else showNotification ''auth_files.delete_filtered_partial''
                                              warning_level st3)
                            in st4\<lparr>type_filter := ''all''\<rparr>)))
            in st2\<lparr>deletingAll := False\<rparr>))"


section \<open>Antigravity quota groups (pages/oauthCallbackSupport.test.ts)\<close>

text \<open>
  The interfaces \<open>AntigravityQuotaInfo\<close> (with its two spellings of the quota object and
  of each field), \<open>AntigravityQuotaGroupDefinition\<close> and \<open>AntigravityQuotaGroup\<close>. The
  payload \<open>Record<string, AntigravityQuotaInfo>\<close> is the list of its entries in the
  order of \<open>Object.entries\<close>.
\<close>

record QuotaInfo =
  remainingFraction :: "rat jsval"
  remaining_fraction :: "rat jsval"
  remaining :: "rat jsval"
  resetTime :: "rat jsval"
  reset_time :: "rat jsval"

record AntigravityQuotaInfo =
  displayName :: "rat jsval"
  quotaInfo :: "QuotaInfo option"
  quota_info :: "QuotaInfo option"

type_synonym AntigravityModelsPayload = "(string \<times> AntigravityQuotaInfo) list"

record AntigravityQuotaGroupDefinition =
  def_id :: string
  def_label :: string
  identifiers :: "string list"
  labelFromModel :: bool

record AntigravityQuotaGroup =
  group_id :: string
  group_label :: string
  group_models :: "string list"
  group_remainingFraction :: rat
  group_resetTime :: "string option"

definition claudeDef :: AntigravityQuotaGroupDefinition where
  "claudeDef =
     \<lparr>def_id = ''claude-gpt'', def_label = ''Claude/GPT'',
      identifiers = [''claude-sonnet-4-5-thinking'', ''claude-opus-4-5-thinking'',
                     ''claude-sonnet-4-5'', ''gpt-oss-120b-medium''],
      labelFromModel = False\<rparr>"

definition geminiDef :: AntigravityQuotaGroupDefinition where
  "geminiDef =
     \<lparr>def_id = ''gemini'', def_label = ''Gemini'',
      identifiers = [''gemini-3-pro-high'', ''gemini-3-pro-low'', ''gemini-2.5-flash'',
                     ''gemini-2.5-flash-lite'', ''rev19-uic3-1p''],
      labelFromModel = False\<rparr>"

definition flashDef :: AntigravityQuotaGroupDefinition where
  "flashDef =
     \<lparr>def_id = ''gemini-3-flash'', def_label = ''Gemini 3 Flash'',
      identifiers = [''gemini-3-flash''], labelFromModel = False\<rparr>"

definition imageDef :: AntigravityQuotaGroupDefinition where
  "imageDef =
     \<lparr>def_id = ''gemini-image'', def_label = ''gemini-3-pro-image'',
      identifiers = [''gemini-3-pro-image''], labelFromModel = True\<rparr>"

definition ANTIGRAVITY_QUOTA_GROUPS :: "AntigravityQuotaGroupDefinition list" where
  "ANTIGRAVITY_QUOTA_GROUPS = [claudeDef, geminiDef, flashDef, imageDef]"

text \<open>
  \<open>Number(value)\<close>. The conversion of a string (StringToNumber of ECMAScript, which
  rounds a decimal literal to a double) is a parameter \<open>S\<close> of everything below that
  converts; \<open>JObject\<close> stands for a plain object, which converts to NaN.
\<close>

fun Number_of :: "(string \<Rightarrow> rat jsnum) \<Rightarrow> rat jsval \<Rightarrow> rat jsnum" where
  "Number_of S JUndefined = NaN"
| "Number_of S JNull = Finite 0"
| "Number_of S (JBool b) = Finite (if b then 1 else 0)"
| "Number_of S (JNum n) = n"
| "Number_of S (JStr s) = S s"
| "Number_of S JObject = NaN"

text \<open>The object that \<open>getAntigravityQuotaInfo\<close> returns.\<close>

record quota_reading =
  info_remainingFraction :: "rat option"
  info_resetTime :: "string option"
  info_displayName :: "string option"

definition stringOrUndefined :: "rat jsval \<Rightarrow> string option" where
  "stringOrUndefined v = (case v of JStr s \<Rightarrow> Some s | _ \<Rightarrow> None)"

text \<open>
  \<^verbatim>\<open>
  function getAntigravityQuotaInfo(entry?: AntigravityQuotaInfo) {
    if (!entry) return { remainingFraction: null };
    const quotaInfo = entry.quotaInfo ?? entry.quota_info ?? {};
    const remainingValue =
      quotaInfo.remainingFraction ?? quotaInfo.remaining_fraction ?? quotaInfo.remaining;
    const remainingFraction = Number(remainingValue);
    const resetValue = quotaInfo.resetTime ?? quotaInfo.reset_time;
    const resetTime = typeof resetValue === 'string' ? resetValue : undefined;
    const displayName = typeof entry.displayName === 'string' ? entry.displayName : undefined;
    return {
      remainingFraction: Number.isFinite(remainingFraction) ? remainingFraction : null,
      resetTime, displayName
    };
  }
  \<close>
  The function is only called on an entry that was found, so the first line is not
  modelled.
\<close>

definition emptyQuotaInfo :: QuotaInfo where
  "emptyQuotaInfo =
     \<lparr>remainingFraction = JUndefined, remaining_fraction = JUndefined, remaining = JUndefined,
      resetTime = JUndefined, reset_time = JUndefined\<rparr>"

definition getAntigravityQuotaInfo ::
  "(string \<Rightarrow> rat jsnum) \<Rightarrow> AntigravityQuotaInfo \<Rightarrow> quota_reading" where
  "getAntigravityQuotaInfo S entry =
     (let qi = (case quotaInfo entry of
                  Some q \<Rightarrow> q
                | None \<Rightarrow> (case quota_info entry of Some q \<Rightarrow> q | None \<Rightarrow> emptyQuotaInfo));
          remainingValue =
            nullish (nullish (remainingFraction qi) (remaining_fraction qi)) (remaining qi);
          resetValue = nullish (resetTime qi) (reset_time qi)
      in \<lparr>info_remainingFraction =
            (case Number_of S remainingValue of Finite r \<Rightarrow> Some r | _ \<Rightarrow> None),
          info_resetTime = stringOrUndefined resetValue,
          info_displayName = stringOrUndefined (displayName entry)\<rparr>)"

text \<open>
  \<^verbatim>\<open>
  function findAntigravityModel(models, identifier) {
    const direct = models[identifier];
    if (direct) return { id: identifier, entry: direct };
    const match = Object.entries(models).find(([, entry]) => {
      const name = typeof entry?.displayName === 'string' ? entry.displayName : '';
      return name.toLowerCase() === identifier.toLowerCase();
    });
    if (match) return { id: match[0], entry: match[1] };
    return null;
  }
  \<close>
\<close>

definition findAntigravityModel ::
  "AntigravityModelsPayload \<Rightarrow> string \<Rightarrow> (string \<times> AntigravityQuotaInfo) option" where
  "findAntigravityModel models identifier =
     (case map_of models identifier of
        Some direct \<Rightarrow> Some (identifier, direct)
      | None \<Rightarrow>
          find (\<lambda>(k, entry).
                  toLowerCase (case displayName entry of JStr n \<Rightarrow> n | _ \<Rightarrow> [])
                    = toLowerCase identifier)
               models)"


text \<open>
  \<open>buildAntigravityQuotaGroups\<close> and its inner \<open>buildGroup\<close>:
  \<^verbatim>\<open>
  const buildGroup = (def, overrideResetTime?: string): AntigravityQuotaGroup | null => {
    const matches = def.identifiers
      .map((identifier) => findAntigravityModel(models, identifier))
      .filter((entry) => Boolean(entry));
    const quotaEntries = matches
      .map(({ id, entry }) => {
        const info = getAntigravityQuotaInfo(entry);
        if (info.remainingFraction === null) return null;
        return { id, remainingFraction: info.remainingFraction,
                 resetTime: info.resetTime, displayName: info.displayName };
      })
      .filter((entry) => entry !== null);
    if (quotaEntries.length === 0) return null;
    const remainingFraction = Math.min(...quotaEntries.map((entry) => entry.remainingFraction));
    const resetTime =
      overrideResetTime ?? quotaEntries.map((entry) => entry.resetTime).find(Boolean);
    const displayName = quotaEntries.map((entry) => entry.displayName).find(Boolean);
    const label = def.labelFromModel && displayName ? displayName : def.label;
    return { id: def.id, label, models: quotaEntries.map((entry) => entry.id),
             remainingFraction, resetTime };
  };
  \<close>
\<close>

record quota_entry =
  entry_id :: string
  entry_remainingFraction :: rat
  entry_resetTime :: "string option"
  entry_displayName :: "string option"

definition groupMatches ::
  "AntigravityModelsPayload \<Rightarrow> AntigravityQuotaGroupDefinition
     \<Rightarrow> (string \<times> AntigravityQuotaInfo) list" where
  "groupMatches models d = List.map_filter (findAntigravityModel models) (identifiers d)"

definition toQuotaEntry ::
  "(string \<Rightarrow> rat jsnum) \<Rightarrow> string \<times> AntigravityQuotaInfo \<Rightarrow> quota_entry option" where
  "toQuotaEntry S m =
     (let info = getAntigravityQuotaInfo S (snd m)
      in case info_remainingFraction info of
           None \<Rightarrow> None
         | Some r \<Rightarrow>
             Some \<lparr>entry_id = fst m, entry_remainingFraction = r,
                   entry_resetTime = info_resetTime info,
                   entry_displayName = info_displayName info\<rparr>)"

definition quotaEntries ::
  "(string \<Rightarrow> rat jsnum) \<Rightarrow> AntigravityModelsPayload \<Rightarrow> AntigravityQuotaGroupDefinition
     \<Rightarrow> quota_entry list" where
  "quotaEntries S models d = List.map_filter (toQuotaEntry S) (groupMatches models d)"

text \<open>\<open>.find(Boolean)\<close> on optional strings: the first one that is defined and not empty.\<close>

fun findTruthy :: "string option list \<Rightarrow> string option" where
  "findTruthy [] = None"
| "findTruthy (None # xs) = findTruthy xs"
| "findTruthy (Some s # xs) = (if s \<noteq> [] then Some s else findTruthy xs)"

definition buildGroup ::
  "(string \<Rightarrow> rat jsnum) \<Rightarrow> AntigravityModelsPayload \<Rightarrow> AntigravityQuotaGroupDefinition
     \<Rightarrow> string option \<Rightarrow> AntigravityQuotaGroup option" where
  "buildGroup S models d overrideResetTime =
     (case quotaEntries S models d of
        [] \<Rightarrow> None
      | e # es \<Rightarrow>
          (let remainingFraction =
                 fold min (map entry_remainingFraction es) (entry_remainingFraction e);
               resetTime =
                 (case overrideResetTime of
                    Some t \<Rightarrow> Some t
                  | None \<Rightarrow> findTruthy (map entry_resetTime (e # es)));
               displayName = findTruthy (map entry_displayName (e # es));
               label = (case displayName of
                          Some n \<Rightarrow> if labelFromModel d then n else def_label d
                        | None \<Rightarrow> def_label d)
           in Some \<lparr>group_id = def_id d, group_label = label,
                    group_models = map entry_id (e # es),
                    group_remainingFraction = remainingFraction,
                    group_resetTime = resetTime\<rparr>))"

text \<open>
  \<^verbatim>\<open>
  const [claudeDef, geminiDef, flashDef, imageDef] = ANTIGRAVITY_QUOTA_GROUPS;
  const claudeGroup = buildGroup(claudeDef);
  if (claudeGroup) groups.push(claudeGroup);
  const geminiGroup = buildGroup(geminiDef);
  if (geminiGroup) { geminiResetTime = geminiGroup.resetTime; groups.push(geminiGroup); }
  const flashGroup = buildGroup(flashDef);
  if (flashGroup) groups.push(flashGroup);
  const imageGroup = buildGroup(imageDef, geminiResetTime);
  if (imageGroup) groups.push(imageGroup);
  return groups;
  \<close>
\<close>

definition pushed :: "'a option \<Rightarrow> 'a list" where
  "pushed g = (case g of Some x \<Rightarrow> [x] | None \<Rightarrow> [])"

definition geminiResetTime :: "(string \<Rightarrow> rat jsnum) \<Rightarrow> AntigravityModelsPayload \<Rightarrow> string option" where
  "geminiResetTime S models =
     (case buildGroup S models geminiDef None of Some g \<Rightarrow> group_resetTime g | None \<Rightarrow> None)"

definition buildAntigravityQuotaGroups ::
  "(string \<Rightarrow> rat jsnum) \<Rightarrow> AntigravityModelsPayload \<Rightarrow> AntigravityQuotaGroup list" where
  "buildAntigravityQuotaGroups S models =
     pushed (buildGroup S models claudeDef None)
     @ pushed (buildGroup S models geminiDef None)
     @ pushed (buildGroup S models flashDef None)
     @ pushed (buildGroup S models imageDef (geminiResetTime S models))"


section \<open>Antigravity quota probe (pages/oauthCallbackSupport.test.ts)\<close>

definition ANTIGRAVITY_QUOTA_URLS :: "string list" where
  "ANTIGRAVITY_QUOTA_URLS =
     [''https://daily-cloudcode-pa.googleapis.com/v1internal:fetchAvailableModels'',
      ''https://daily-cloudcode-pa.sandbox.googleapis.com/v1internal:fetchAvailableModels'',
      ''https://cloudcode-pa.googleapis.com/v1internal:fetchAvailableModels'']"

text \<open>
  A parsed payload is represented by its \<open>models\<close> member, which the probe rejects when
  it is falsy (in particular absent), not an object, or an array. A response body is
  absent, a string, an object already parsed, or some other value.
\<close>

datatype models_member =
    ModelsFalsy
  | ModelsNotObject
  | ModelsArray
  | ModelsObject AntigravityModelsPayload

datatype response_body = BodyAbsent | BodyString string | BodyObject models_member | BodyOther

record ApiCallResult =
  statusCode :: int
  body :: response_body
  bodyText :: "string option"

text \<open>
  The collaborators of the probe: the generic API call (from the auth index and the URL
  to the outcome; method, headers and data are constants of the page),
  \<open>getApiCallErrorMessage\<close> of \<open>services/api\<close>, which is not among the sources,
  \<open>JSON.parse\<close> (\<open>None\<close> when it throws) and StringToNumber.
\<close>

record collaborators =
  request :: "string \<Rightarrow> string \<Rightarrow> ApiCallResult api_result"
  getApiCallErrorMessage :: "ApiCallResult \<Rightarrow> string"
  JSON_parse :: "string \<Rightarrow> models_member option"
  StringToNumber :: "string \<Rightarrow> rat jsnum"

text \<open>
  \<^verbatim>\<open>
  function parseAntigravityPayload(payload: unknown): Record<string, unknown> | null {
    if (payload === undefined || payload === null) return null;
    if (typeof payload === 'string') {
      const trimmed = payload.trim();
      if (!trimmed) return null;
      try { return JSON.parse(trimmed); } catch { return null; }
    }
    if (typeof payload === 'object') return payload;
    return null;
  }
  \<close>
\<close>

definition parseAntigravityPayload ::
  "(string \<Rightarrow> models_member option) \<Rightarrow> response_body \<Rightarrow> models_member option" where
  "parseAntigravityPayload J payload =
     (case payload of
        BodyAbsent \<Rightarrow> None
      | BodyString s \<Rightarrow> (let trimmed = trim s in if trimmed = [] then None else J trimmed)
      | BodyObject m \<Rightarrow> Some m
      | BodyOther \<Rightarrow> None)"

text \<open>
  \<^verbatim>\<open>
  let lastError = ''; let hadSuccess = false;
  for (const url of ANTIGRAVITY_QUOTA_URLS) {
    try {
      const result = await apiCallApi.request({ authIndex, method: 'POST', url, ... });
      if (result.statusCode < 200 || result.statusCode >= 300) {
        lastError = getApiCallErrorMessage(result); continue;
      }
      hadSuccess = true;
      const payload = parseAntigravityPayload(result.body ?? result.bodyText);
      const models = payload?.models;
      if (!models || typeof models !== 'object' || Array.isArray(models)) {
        lastError = t('antigravity_quota.empty_models'); continue;
      }
      const groups = buildAntigravityQuotaGroups(models as AntigravityModelsPayload);
      if (groups.length === 0) { lastError = t('antigravity_quota.empty_models'); continue; }
      return groups;
    } catch (err) {
      lastError = err instanceof Error ? err.message : t('common.unknown_error');
    }
  }
  if (hadSuccess) return [];
  throw new Error(lastError || t('common.unknown_error'));
  \<close>
  One turn of the loop is \<open>probeUrl\<close>: it ends the loop with groups, or goes on with a
  new \<open>lastError\<close>, after a 2xx response (\<open>Empty\<close>) or without one (\<open>Failed\<close>).
\<close>

datatype probe = Failed string | Empty string | Usable "AntigravityQuotaGroup list"

definition responseModels :: "collaborators \<Rightarrow> ApiCallResult \<Rightarrow> models_member" where
  "responseModels env result =
     (let payload =
            parseAntigravityPayload (JSON_parse env)
              (case body result of
                 BodyAbsent \<Rightarrow>
                   (case bodyText result of Some s \<Rightarrow> BodyString s | None \<Rightarrow> BodyAbsent)
               | b \<Rightarrow> b)
      in case payload of Some m \<Rightarrow> m | None \<Rightarrow> ModelsFalsy)"

definition probeUrl :: "collaborators \<Rightarrow> string \<Rightarrow> string \<Rightarrow> probe" where
  "probeUrl env idx url =
     (case request env idx url of
        Rejected thrown \<Rightarrow> Failed (errorMessageOr thrown ''common.unknown_error'')
      | Resolved result \<Rightarrow>
          if statusCode result < 200 \<or> statusCode result \<ge> 300
          then Failed (getApiCallErrorMessage env result)
          else
            (case responseModels env result of
               ModelsObject m \<Rightarrow>
                 (let groups = buildAntigravityQuotaGroups (StringToNumber env) m
                  in if groups = [] then Empty ''antigravity_quota.empty_models''
                     else Usable groups)
             | _ \<Rightarrow> Empty ''antigravity_quota.empty_models''))"

fun fetchLoop ::
  "collaborators \<Rightarrow> string \<Rightarrow> string list \<Rightarrow> string \<Rightarrow> bool
     \<Rightarrow> string + AntigravityQuotaGroup list" where
  "fetchLoop env idx [] lastError hadSuccess =
     (if hadSuccess then Inr []
      else Inl (if lastError \<noteq> [] then lastError else ''common.unknown_error''))"
| "fetchLoop env idx (url # urls) lastError hadSuccess =
     (case probeUrl env idx url of
        Failed e \<Rightarrow> fetchLoop env idx urls e hadSuccess
      | Empty e \<Rightarrow> fetchLoop env idx urls e True
      | Usable groups \<Rightarrow> Inr groups)"

definition fetchAntigravityQuota ::
  "collaborators \<Rightarrow> string \<Rightarrow> string + AntigravityQuotaGroup list" where
  "fetchAntigravityQuota env idx =
     fetchLoop env idx ANTIGRAVITY_QUOTA_URLS [] False"

text \<open>
  The words of the spec, for comparison with the loop. A URL answers 2xx when the call
  returns with a status from 200 to 299. A URL fails softly when the call throws, or the
  status is not 2xx, or the response has no model map that gives a group (the map is
  missing or malformed, or no group comes out of it).
\<close>

definition got2xx :: "collaborators \<Rightarrow> string \<Rightarrow> string \<Rightarrow> bool" where
  "got2xx env idx url =
     (case request env idx url of
        Resolved r \<Rightarrow> 200 \<le> statusCode r \<and> statusCode r < 300
      | Rejected thrown \<Rightarrow> False)"

definition softFailure :: "collaborators \<Rightarrow> string \<Rightarrow> string \<Rightarrow> bool" where
  "softFailure env idx url =
     (case request env idx url of
        Rejected thrown \<Rightarrow> True
      | Resolved r \<Rightarrow>
          statusCode r < 200 \<or> statusCode r \<ge> 300
          \<or> (case responseModels env r of
                ModelsObject m \<Rightarrow> buildAntigravityQuotaGroups (StringToNumber env) m = []
              | _ \<Rightarrow> True))"


section \<open>Example data\<close>

text \<open>The example of the spec: one auth-index bucket and two source buckets, for
  \<open>file.json\<close> with and without an \<open>auth_index\<close> of 3.\<close>

definition example_stats :: KeyStats where
  "example_stats =
     \<lparr>bySource = [''file.json'' \<mapsto> \<lparr>success = 0, failure = 0\<rparr>,
                  ''file'' \<mapsto> \<lparr>success = 5, failure = 1\<rparr>],
      byAuthIndex = [''3'' \<mapsto> \<lparr>success = 2, failure = 0\<rparr>]\<rparr>"

text \<open>A record with the given \<open>id\<close>, \<open>name\<close>, \<open>auth_index\<close>, \<open>runtime_only\<close>, \<open>runtimeOnly\<close>
  and \<open>codex_quota\<close>, and nothing else.\<close>

definition auth_file ::
  "string option \<Rightarrow> string \<Rightarrow> int jsval \<Rightarrow> int jsval \<Rightarrow> int jsval \<Rightarrow> CodexQuota option
     \<Rightarrow> AuthFileItem" where
  "auth_file i nm idx ro ro' cq =
     \<lparr>file_id = i, name = nm, file_type = None, provider = None,
      auth_index = idx, authIndex = JUndefined,
      runtime_only = ro, runtimeOnly = ro',
      disabled = False, codex_quota = cq\<rparr>"

definition example_file :: "int jsval \<Rightarrow> AuthFileItem" where
  "example_file idx = auth_file None ''file.json'' idx JUndefined JUndefined None"

text \<open>A file whose name is an extension only, and statistics with a bucket under the
  empty name.\<close>

definition dot_file :: AuthFileItem where
  "dot_file = auth_file None ''.json'' JUndefined JUndefined JUndefined None"

definition dot_stats :: KeyStats where
  "dot_stats =
     \<lparr>bySource = [''.json'' \<mapsto> \<lparr>success = 0, failure = 0\<rparr>,
                  [] \<mapsto> \<lparr>success = 5, failure = 1\<rparr>],
      byAuthIndex = Map.empty\<rparr>"

text \<open>Three files of a page, a refreshed record for the second one, and a backend that
  answers every refresh with that record.\<close>

definition codex_1 :: AuthFileItem where
  "codex_1 = auth_file (Some ''codex-1'') ''codex-1.json'' JUndefined JUndefined JUndefined
     (Some \<lparr>primary_used_percent = JNum (Finite 27), secondary_used_percent = JNum (Finite 50)\<rparr>)"

definition codex_2 :: AuthFileItem where
  "codex_2 = auth_file (Some ''codex-2'') ''codex-2.json'' JUndefined JUndefined JUndefined None"

definition ag_1 :: AuthFileItem where
  "ag_1 = auth_file None ''antigravity-1.json'' JUndefined (JStr '' True '') JUndefined None"

definition codex_2_refreshed :: AuthFileItem where
  "codex_2_refreshed =
     auth_file (Some ''codex-2'') ''codex-2.json'' (JNum (Finite 4)) JUndefined JUndefined
       (Some \<lparr>primary_used_percent = JNum (Finite 10), secondary_used_percent = JUndefined\<rparr>)"

definition example_page :: page_state where
  "example_page =
     \<lparr>files = [codex_1, codex_2, ag_1], error = [], loading = False, type_filter = ''all'',
      deletingAll = False, refreshingQuota = {}, notifications = []\<rparr>"

definition example_backend :: backend where
  "example_backend =
     \<lparr>api_refreshAntigravityQuota = (\<lambda>i. Resolved (Some codex_2_refreshed)),
      api_refreshCodexQuota = (\<lambda>i m. Resolved (Some codex_2_refreshed)),
      api_list = Resolved None,
      api_deleteAll = Resolved (),
      api_deleteFile = (\<lambda>n. Resolved ())\<rparr>"


text \<open>Payloads for the quota groups: the two Claude/GPT models of the spec's example, and
  a Gemini model and the image model with different reset times. No fraction is a
  string there, so StringToNumber can be anything.\<close>

definition no_strings :: "string \<Rightarrow> rat jsnum" where
  "no_strings s = NaN"

definition model_entry :: "rat \<Rightarrow> rat jsval \<Rightarrow> AntigravityQuotaInfo" where
  "model_entry r reset =
     \<lparr>displayName = JUndefined,
      quotaInfo = Some \<lparr>remainingFraction = JNum (Finite r), remaining_fraction = JUndefined,
                        remaining = JUndefined, resetTime = reset, reset_time = JUndefined\<rparr>,
      quota_info = None\<rparr>"

definition claude_models :: AntigravityModelsPayload where
  "claude_models =
     [(''claude-sonnet-4-5'', model_entry (4 / 5) JUndefined),
      (''gpt-oss-120b-medium'', model_entry (3 / 10) (JStr ''2026-01-01T00:00:00Z''))]"

definition gemini_models :: AntigravityModelsPayload where
  "gemini_models =
     [(''gemini-3-pro-high'', model_entry (1 / 2) (JStr ''2026-01-01T00:00:00Z'')),
      (''gemini-3-pro-image'', model_entry (1 / 4) (JStr ''2026-02-02T00:00:00Z''))]"

text \<open>
  The words of the spec, for comparison with \<open>buildGroup\<close>: the remaining fractions of a
  group's matching constituents are the parseable fractions of the entries that its
  identifiers find, in the order of the identifiers.
\<close>

definition matchingFractions ::
  "(string \<Rightarrow> rat jsnum) \<Rightarrow> AntigravityModelsPayload \<Rightarrow> AntigravityQuotaGroupDefinition
     \<Rightarrow> rat list" where
  "matchingFractions S models d =
     List.map_filter
       (\<lambda>identifier.
          case findAntigravityModel models identifier of
            None \<Rightarrow> None
          | Some m \<Rightarrow> info_remainingFraction (getAntigravityQuotaInfo S (snd m)))
       (identifiers d)"


text \<open>The groups that come out of these payloads.\<close>

definition claude_group :: AntigravityQuotaGroup where
  "claude_group =
     \<lparr>group_id = ''claude-gpt'', group_label = ''Claude/GPT'',
      group_models = [''claude-sonnet-4-5'', ''gpt-oss-120b-medium''],
      group_remainingFraction = 3 / 10,
      group_resetTime = Some ''2026-01-01T00:00:00Z''\<rparr>"

definition gemini_group :: AntigravityQuotaGroup where
  "gemini_group =
     \<lparr>group_id = ''gemini'', group_label = ''Gemini'',
      group_models = [''gemini-3-pro-high''],
      group_remainingFraction = 1 / 2,
      group_resetTime = Some ''2026-01-01T00:00:00Z''\<rparr>"

definition image_group :: AntigravityQuotaGroup where
  "image_group =
     \<lparr>group_id = ''gemini-image'', group_label = ''gemini-3-pro-image'',
      group_models = [''gemini-3-pro-image''],
      group_remainingFraction = 1 / 4,
      group_resetTime = Some ''2026-01-01T00:00:00Z''\<rparr>"

text \<open>
  Three upstreams. In the first the first mirror times out, the second answers 503 and
  the third answers 200 with the Claude/GPT models. In the second the first mirror
  answers 404, the second answers 200 with an empty body and the third times out. In the
  third no mirror answers.
\<close>

definition example_env :: "(string \<Rightarrow> ApiCallResult api_result) \<Rightarrow> collaborators" where
  "example_env req =
     \<lparr>request = (\<lambda>idx. req),
      getApiCallErrorMessage = (\<lambda>r. ''upstream error''),
      JSON_parse = (\<lambda>s. None),
      StringToNumber = no_strings\<rparr>"

definition mirror_1 :: string where
  "mirror_1 = ''https://daily-cloudcode-pa.googleapis.com/v1internal:fetchAvailableModels''"

definition mirror_2 :: string where
  "mirror_2 = ''https://daily-cloudcode-pa.sandbox.googleapis.com/v1internal:fetchAvailableModels''"

definition mirror_3 :: string where
  "mirror_3 = ''https://cloudcode-pa.googleapis.com/v1internal:fetchAvailableModels''"

definition answer_200 :: ApiCallResult where
  "answer_200 =
     \<lparr>statusCode = 200, body = BodyObject (ModelsObject claude_models), bodyText = None\<rparr>"

definition third_mirror_answers :: "string \<Rightarrow> ApiCallResult api_result" where
  "third_mirror_answers url =
     (if url = mirror_1 then Rejected (Some ''timeout'')
      else if url = mirror_2
      then Resolved \<lparr>statusCode = 503, body = BodyAbsent, bodyText = None\<rparr>
      else Resolved answer_200)"

definition second_mirror_empty :: "string \<Rightarrow> ApiCallResult api_result" where
  "second_mirror_empty url =
     (if url = mirror_1
      then Resolved \<lparr>statusCode = 404, body = BodyAbsent, bodyText = None\<rparr>
      else if url = mirror_2
      then Resolved \<lparr>statusCode = 200, body = BodyAbsent, bodyText = Some []\<rparr>
      else Rejected (Some ''timeout''))"

definition no_mirror_answers :: "string \<Rightarrow> ApiCallResult api_result" where
  "no_mirror_answers url = Rejected (Some ''timeout'')"


section \<open>Properties of the identity normalizer\<close>

lemma decimal_not_Nil: "decimal n \<noteq> []"
  by (subst decimal.simps) simp

lemma Number_toString_not_Nil: "Number_toString i \<noteq> []"
  by (simp add: Number_toString_def decimal_not_Nil)


lemma normalizeAuthIndexValue_not_Nil:
  "normalizeAuthIndexValue v = Some k \<Longrightarrow> k \<noteq> []"
  by (cases v rule: normalizeAuthIndexValue.cases)
     (auto simp: Number_toString_not_Nil Let_def split: if_splits)




section \<open>Properties of the statistics lookup\<close>

text \<open>
  C1. When the auth index of a file (\<open>auth_index\<close>, or \<open>authIndex\<close> when \<open>auth_index\<close> is
  \<open>null\<close> or absent) normalizes to a key that \<open>byAuthIndex\<close> holds, \<open>resolveAuthFileStats\<close>
  returns that bucket, whatever \<open>bySource\<close> holds under the name of the file or under the
  name without its extension.
\<close>

theorem resolveAuthFileStats_auth_index_wins:
  assumes "normalizeAuthIndexValue (nullish (auth_index file) (authIndex file)) = Some k"
    and "byAuthIndex stats k = Some b"
  shows "resolveAuthFileStats file stats = b"
  using assms
  by (simp add: resolveAuthFileStats_def statsFromAuthIndex_def normalizeAuthIndexValue_not_Nil)

theorem resolveAuthFileStats_auth_index_wins_witness:
  "normalizeAuthIndexValue
     (nullish (auth_index (example_file (JNum (Finite 3))))
              (authIndex (example_file (JNum (Finite 3))))) = Some ''3''
   \<and> byAuthIndex example_stats ''3'' = Some \<lparr>success = 2, failure = 0\<rparr>
   \<and> bySource example_stats ''file.json'' = Some \<lparr>success = 0, failure = 0\<rparr>
   \<and> bySource example_stats ''file'' = Some \<lparr>success = 5, failure = 1\<rparr>
   \<and> resolveAuthFileStats (example_file (JNum (Finite 3))) example_stats
       = \<lparr>success = 2, failure = 0\<rparr>"
proof -
  have k: "normalizeAuthIndexValue
      (nullish (auth_index (example_file (JNum (Finite 3))))
               (authIndex (example_file (JNum (Finite 3))))) = Some ''3''"
    by (simp add: example_file_def auth_file_def nullish_def Number_toString_def decimal.simps)
  have b: "byAuthIndex example_stats ''3'' = Some \<lparr>success = 2, failure = 0\<rparr>"
    by (simp add: example_stats_def)
  have s: "bySource example_stats ''file.json'' = Some \<lparr>success = 0, failure = 0\<rparr>
     \<and> bySource example_stats ''file'' = Some \<lparr>success = 5, failure = 1\<rparr>"
    by (simp add: example_stats_def)
  show ?thesis
    using resolveAuthFileStats_auth_index_wins [OF k b] k b s by simp
qed

lemma removeExtension_Nil_name: "removeExtension s \<noteq> [] \<Longrightarrow> s \<noteq> []"
  by (auto simp: removeExtension_def)

text \<open>
  C2, as amended. For a file without a usable auth index (its auth index normalizes to
  \<open>null\<close>, or to a key that \<open>byAuthIndex\<close> does not hold): when the bucket of \<open>bySource\<close>
  under the name of the file exists with both counters zero, and the bucket under the
  name without its extension has a counter that is not zero, and that shorter name is not
  empty, \<open>resolveAuthFileStats\<close> returns the bucket of the shorter name.
\<close>

theorem resolveAuthFileStats_skips_empty_bucket:
  assumes "case normalizeAuthIndexValue (nullish (auth_index file) (authIndex file)) of
             None \<Rightarrow> True | Some k \<Rightarrow> byAuthIndex stats k = None"
    and "bySource stats (name file) = Some b0"
    and "success b0 = 0" and "failure b0 = 0"
    and "bySource stats (removeExtension (name file)) = Some b"
    and "success b > 0 \<or> failure b > 0"
    and "removeExtension (name file) \<noteq> []"
  shows "resolveAuthFileStats file stats = b"
proof -
  have idx: "statsFromAuthIndex file stats = None"
    using assms(1) by (simp add: statsFromAuthIndex_def split: option.splits)
  have ne: "name file \<noteq> []"
    using assms(7) by (rule removeExtension_Nil_name)
  have "b \<noteq> b0"
    using assms(3,4,6) by auto
  then have diff: "removeExtension (name file) \<noteq> name file"
    using assms(2,5) by auto
  have first: "statsFromName (name file) stats = None"
    using assms(2,3,4) ne by (simp add: statsFromName_def nonzero_def)
  have second: "statsFromNameWithoutExt (name file) stats = Some b"
    using assms(5,6,7) ne diff by (simp add: statsFromNameWithoutExt_def nonzero_def)
  show ?thesis
    by (simp add: resolveAuthFileStats_def idx first second)
qed

theorem resolveAuthFileStats_skips_empty_bucket_witness:
  "normalizeAuthIndexValue
     (nullish (auth_index (example_file JUndefined)) (authIndex (example_file JUndefined))) = None
   \<and> name (example_file JUndefined) = ''file.json''
   \<and> removeExtension ''file.json'' = ''file''
   \<and> bySource example_stats ''file.json'' = Some \<lparr>success = 0, failure = 0\<rparr>
   \<and> bySource example_stats ''file'' = Some \<lparr>success = 5, failure = 1\<rparr>
   \<and> resolveAuthFileStats (example_file JUndefined) example_stats
       = \<lparr>success = 5, failure = 1\<rparr>"
proof -
  have n: "name (example_file JUndefined) = ''file.json''"
    by (simp add: example_file_def auth_file_def)
  have k: "normalizeAuthIndexValue
      (nullish (auth_index (example_file JUndefined)) (authIndex (example_file JUndefined))) = None"
    by (simp add: example_file_def auth_file_def nullish_def)
  have r: "removeExtension ''file.json'' = ''file''"
    by (simp add: removeExtension_def)
  have s0: "bySource example_stats ''file.json'' = Some \<lparr>success = 0, failure = 0\<rparr>"
    by (simp add: example_stats_def)
  have s1: "bySource example_stats ''file'' = Some \<lparr>success = 5, failure = 1\<rparr>"
    by (simp add: example_stats_def)
  have "resolveAuthFileStats (example_file JUndefined) example_stats
          = \<lparr>success = 5, failure = 1\<rparr>"
    by (rule resolveAuthFileStats_skips_empty_bucket
          [where ?b0.0 = "\<lparr>success = 0, failure = 0\<rparr>"])
       (simp_all add: k n r s0 s1)
  then show ?thesis
    using k n r s0 s1 by simp
qed

text \<open>
  The claim as stated fails for the file \<open>.json\<close>: its name without the extension is the
  empty string, the code does not look the empty string up, and the result is the
  default bucket although \<open>bySource\<close> has a bucket with counts under the stripped name.
\<close>

theorem resolveAuthFileStats_empty_stem_counterexample:
  "normalizeAuthIndexValue (nullish (auth_index dot_file) (authIndex dot_file)) = None
   \<and> bySource dot_stats (name dot_file) = Some \<lparr>success = 0, failure = 0\<rparr>
   \<and> bySource dot_stats (removeExtension (name dot_file)) = Some \<lparr>success = 5, failure = 1\<rparr>
   \<and> resolveAuthFileStats dot_file dot_stats = \<lparr>success = 0, failure = 0\<rparr>
   \<and> resolveAuthFileStats dot_file dot_stats \<noteq> \<lparr>success = 5, failure = 1\<rparr>"
  by (simp add: dot_file_def dot_stats_def auth_file_def nullish_def removeExtension_def
        resolveAuthFileStats_def statsFromAuthIndex_def statsFromName_def
        statsFromNameWithoutExt_def nonzero_def)


section \<open>Properties of the Codex remaining percent\<close>







section \<open>Properties of the excluded-models text\<close>

lemma splitFields_field:
  "list_all (\<lambda>c. \<not> isSeparator c) x \<Longrightarrow>
   splitFields acc (x @ rest) = splitFields (rev x @ acc) rest"
  by (induction x arbitrary: acc) auto

lemma trim_Nil: "trim [] = []"
  by (simp add: trim_def)

text \<open>Leading separators only add an empty first field, which the filter drops.\<close>

lemma parse_dropWhile:
  "filter (\<lambda>item. item \<noteq> []) (map trim (splitFields [] (dropWhile isSeparator r)))
   = filter (\<lambda>item. item \<noteq> []) (map trim (splitFields [] r))"
proof (cases r)
  case Nil
  then show ?thesis by simp
next
  case (Cons c cs)
  then show ?thesis
    by (cases "isSeparator c") (simp_all add: trim_Nil)
qed

lemma parse_join:
  "list_all (\<lambda>x. list_all (\<lambda>c. \<not> isSeparator c) x) xs \<Longrightarrow>
   filter (\<lambda>item. item \<noteq> []) (map trim (splitFields [] (join_newline xs)))
   = filter (\<lambda>item. item \<noteq> []) (map trim xs)"
proof (induction xs rule: join_newline.induct)
  case 1
  then show ?case by (simp add: trim_Nil)
next
  case (2 x)
  then show ?case
    using splitFields_field [of x "[]" "[]"] by simp
next
  case (3 x y ys)
  have sep: "isSeparator (CHR 0x0A)"
    by (simp add: isSeparator_def)
  have "splitFields [] (x @ CHR 0x0A # join_newline (y # ys))
        = x # splitFields [] (dropWhile isSeparator (join_newline (y # ys)))"
    using 3(2) splitFields_field [of x "[]" "CHR 0x0A # join_newline (y # ys)"] sep by simp
  then have "filter (\<lambda>item. item \<noteq> []) (map trim (splitFields [] (join_newline (x # y # ys))))
        = filter (\<lambda>item. item \<noteq> []) [trim x]
          @ filter (\<lambda>item. item \<noteq> [])
              (map trim (splitFields [] (dropWhile isSeparator (join_newline (y # ys)))))"
    by simp
  also have "\<dots> = filter (\<lambda>item. item \<noteq> []) [trim x]
          @ filter (\<lambda>item. item \<noteq> []) (map trim (y # ys))"
    using 3 by (simp add: parse_dropWhile)
  finally show ?case by simp
qed

text \<open>
  C8, as amended. For a list of strings without line feeds and commas,
  \<open>excludedModelsToText\<close> followed by \<open>parseExcludedModels\<close> gives the trimmed elements
  that are not empty, in their order and with their duplicates: an element that is empty
  or white space only is dropped, and nothing else changes.
\<close>

theorem excluded_models_round_trip:
  assumes "list_all (\<lambda>x. list_all (\<lambda>c. \<not> isSeparator c) x) xs"
  shows "parseExcludedModels (excludedModelsToText (Some xs))
         = filter (\<lambda>item. item \<noteq> []) (map trim xs)"
  using parse_join [OF assms]
  by (simp add: parseExcludedModels_def excludedModelsToText_def split_newline_comma_def)

theorem excluded_models_round_trip_witness:
  "list_all (\<lambda>x. list_all (\<lambda>c. \<not> isSeparator c) x) [''gpt-4'', '' claude-3 '', ''gpt-4'', ''  '']
   \<and> parseExcludedModels (excludedModelsToText (Some [''gpt-4'', '' claude-3 '', ''gpt-4'', ''  '']))
       = [''gpt-4'', ''claude-3'', ''gpt-4'']"
proof -
  have h: "list_all (\<lambda>x. list_all (\<lambda>c. \<not> isSeparator c) x)
             [''gpt-4'', '' claude-3 '', ''gpt-4'', ''  '']"
    by (simp add: isSeparator_def)
  show ?thesis
    using excluded_models_round_trip [OF h] h
    by (simp add: trim_def isWhiteSpace_def)
qed

text \<open>
  The claim as stated fails for a list with an empty element: the list
  \<open>["a", "", "b"]\<close> has no line feed and no comma in its elements, its text is \<open>a\n\nb\<close>,
  and parsing gives \<open>["a", "b"]\<close>, not the three elements.
\<close>

theorem excluded_models_blank_counterexample:
  "list_all (\<lambda>x. list_all (\<lambda>c. \<not> isSeparator c) x) [''a'', [], ''b'']
   \<and> map trim [''a'', [], ''b''] = [''a'', [], ''b'']
   \<and> parseExcludedModels (excludedModelsToText (Some [''a'', [], ''b''])) = [''a'', ''b'']
   \<and> parseExcludedModels (excludedModelsToText (Some [''a'', [], ''b'']))
       \<noteq> map trim [''a'', [], ''b'']"
  by (simp add: parseExcludedModels_def excludedModelsToText_def split_newline_comma_def
        isSeparator_def trim_def isWhiteSpace_def)


section \<open>Properties of the page handlers\<close>

lemma refreshQuotaWith_files:
  assumes "authIdentity item \<noteq> []"
    and "call (authIdentity item) = Resolved (Some updated)"
  shows "files (refreshQuotaWith call listed item st)
         = map (\<lambda>f. if authIdentity f = authIdentity item then updated else f) (files st)"
  using assms
  by (simp add: refreshQuotaWith_def Let_def showNotification_def replaceAuthFile_def)

text \<open>
  C9. When the refresh of a record (Antigravity or Codex) resolves with an updated record,
  the new file list is the old one with every element of the same identity (the trimmed
  \<open>id\<close> when the record has one, the trimmed \<open>name\<close> otherwise) replaced by the returned
  record as a whole, and every other element as it was.
\<close>

theorem refresh_replaces_by_identity:
  assumes "authIdentity item \<noteq> []"
  shows "(api_refreshAntigravityQuota api (authIdentity item) = Resolved (Some updated) \<longrightarrow>
            files (refreshAntigravityQuota api item st)
            = map (\<lambda>f. if authIdentity f = authIdentity item then updated else f) (files st))
       \<and> (api_refreshCodexQuota api (authIdentity item) ''gpt-5.2'' = Resolved (Some updated) \<longrightarrow>
            files (refreshCodexQuota api item st)
            = map (\<lambda>f. if authIdentity f = authIdentity item then updated else f) (files st))"
  using assms
  by (simp add: refreshAntigravityQuota_def refreshCodexQuota_def refreshQuotaWith_files)

theorem refresh_replaces_by_identity_witness:
  "authIdentity codex_2 = ''codex-2''
   \<and> authIdentity codex_2 \<noteq> []
   \<and> api_refreshAntigravityQuota example_backend (authIdentity codex_2)
       = Resolved (Some codex_2_refreshed)
   \<and> api_refreshCodexQuota example_backend (authIdentity codex_2) ''gpt-5.2''
       = Resolved (Some codex_2_refreshed)
   \<and> files example_page = [codex_1, codex_2, ag_1]
   \<and> files (refreshAntigravityQuota example_backend codex_2 example_page)
       = [codex_1, codex_2_refreshed, ag_1]
   \<and> files (refreshCodexQuota example_backend codex_2 example_page)
       = [codex_1, codex_2_refreshed, ag_1]"
proof -
  have ids: "authIdentity codex_1 = ''codex-1''" "authIdentity codex_2 = ''codex-2''"
    "authIdentity ag_1 = ''antigravity-1.json''"
    by (simp_all add: authIdentity_def codex_1_def codex_2_def ag_1_def auth_file_def
          trim_def isWhiteSpace_def)
  have ne: "authIdentity codex_2 \<noteq> []"
    by (simp add: ids)
  have calls: "api_refreshAntigravityQuota example_backend (authIdentity codex_2)
       = Resolved (Some codex_2_refreshed)"
    "api_refreshCodexQuota example_backend (authIdentity codex_2) ''gpt-5.2''
       = Resolved (Some codex_2_refreshed)"
    by (simp_all add: example_backend_def)
  have fs: "files example_page = [codex_1, codex_2, ag_1]"
    by (simp add: example_page_def)
  show ?thesis
    using refresh_replaces_by_identity
            [OF ne, of example_backend codex_2_refreshed example_page]
          calls fs ids
    by simp
qed

lemma isRuntimeOnlyAuthFile_iff:
  "isRuntimeOnlyAuthFile f \<longleftrightarrow>
     nullish (runtime_only f) (runtimeOnly f) = JBool True
     \<or> (\<exists>s. nullish (runtime_only f) (runtimeOnly f) = JStr s \<and> toLowerCase (trim s) = ''true'')"
  by (cases "nullish (runtime_only f) (runtimeOnly f)")
     (simp_all add: isRuntimeOnlyAuthFile_def)

text \<open>
  C10. After a confirmed delete-all with no type filter whose backend call succeeds, the
  file list holds exactly the items classified as runtime-only, in their order, and no
  other item. An item is runtime-only when its flag (\<open>runtime_only\<close>, or \<open>runtimeOnly\<close>
  when \<open>runtime_only\<close> is \<open>null\<close> or absent) is the boolean \<open>true\<close> or a string that is
  \<open>true\<close> after trimming and lower-casing.
\<close>

theorem handleDeleteAll_keeps_runtime_only:
  assumes "type_filter st = ''all''" and "confirmed" and "api_deleteAll api = Resolved ()"
  shows "files (handleDeleteAll api confirmed st) = filter isRuntimeOnlyAuthFile (files st)
       \<and> set (files (handleDeleteAll api confirmed st))
           = {f \<in> set (files st). isRuntimeOnlyAuthFile f}
       \<and> (isRuntimeOnlyAuthFile f \<longleftrightarrow>
            nullish (runtime_only f) (runtimeOnly f) = JBool True
            \<or> (\<exists>s. nullish (runtime_only f) (runtimeOnly f) = JStr s
                    \<and> toLowerCase (trim s) = ''true''))"
proof -
  have "files (handleDeleteAll api confirmed st) = filter isRuntimeOnlyAuthFile (files st)"
    using assms by (simp add: handleDeleteAll_def Let_def showNotification_def)
  then show ?thesis
    using isRuntimeOnlyAuthFile_iff [of f] by simp
qed

theorem handleDeleteAll_keeps_runtime_only_witness:
  "type_filter example_page = ''all''
   \<and> api_deleteAll example_backend = Resolved ()
   \<and> files example_page = [codex_1, codex_2, ag_1]
   \<and> runtime_only ag_1 = JStr '' True ''
   \<and> isRuntimeOnlyAuthFile ag_1
   \<and> \<not> isRuntimeOnlyAuthFile codex_1
   \<and> \<not> isRuntimeOnlyAuthFile codex_2
   \<and> files (handleDeleteAll example_backend True example_page) = [ag_1]"
proof -
  have t: "type_filter example_page = ''all''"
    by (simp add: example_page_def)
  have d: "api_deleteAll example_backend = Resolved ()"
    by (simp add: example_backend_def)
  have fs: "files example_page = [codex_1, codex_2, ag_1]"
    by (simp add: example_page_def)
  have ro: "runtime_only ag_1 = JStr '' True ''"
    by (simp add: ag_1_def auth_file_def)
  have cls: "isRuntimeOnlyAuthFile ag_1" "\<not> isRuntimeOnlyAuthFile codex_1"
    "\<not> isRuntimeOnlyAuthFile codex_2"
    by (simp_all add: isRuntimeOnlyAuthFile_def ag_1_def codex_1_def codex_2_def auth_file_def
          nullish_def trim_def isWhiteSpace_def toLowerCase_def toLowerChar_def)
  show ?thesis
    using handleDeleteAll_keeps_runtime_only [OF t _ d, of True] t d fs ro cls
    by simp
qed



section \<open>Properties of the Antigravity quota groups\<close>

lemma fractions_of_entries_aux:
  "map entry_remainingFraction
     (List.map_filter (toQuotaEntry S) (List.map_filter (findAntigravityModel models) ids))
   = List.map_filter
       (\<lambda>identifier.
          case findAntigravityModel models identifier of
            None \<Rightarrow> None
          | Some m \<Rightarrow> info_remainingFraction (getAntigravityQuotaInfo S (snd m)))
       ids"
  by (induction ids)
     (auto simp: List.map_filter_simps toQuotaEntry_def Let_def split: option.splits)

lemma fractions_of_entries:
  "map entry_remainingFraction (quotaEntries S models d) = matchingFractions S models d"
  by (simp add: quotaEntries_def groupMatches_def matchingFractions_def fractions_of_entries_aux)

lemma buildGroup_None_iff:
  "buildGroup S models d ovr = None \<longleftrightarrow> quotaEntries S models d = []"
  by (simp add: buildGroup_def Let_def split: list.splits)

lemma buildGroup_Some:
  assumes "buildGroup S models d ovr = Some g"
  shows "group_id g = def_id d"
    and "group_remainingFraction g
         = Min (set (map entry_remainingFraction (quotaEntries S models d)))"
    and "group_resetTime g =
           (case ovr of Some t \<Rightarrow> Some t
            | None \<Rightarrow> findTruthy (map entry_resetTime (quotaEntries S models d)))"
proof -
  obtain e es where q: "quotaEntries S models d = e # es"
    using assms by (cases "quotaEntries S models d") (simp_all add: buildGroup_def)
  have g: "Some g = buildGroup S models d ovr"
    using assms by simp
  show "group_id g = def_id d"
    using g by (simp add: buildGroup_def q Let_def)
  have "group_remainingFraction g
        = fold min (map entry_remainingFraction es) (entry_remainingFraction e)"
    using g by (simp add: buildGroup_def q Let_def)
  also have "\<dots> = Min (set (entry_remainingFraction e # map entry_remainingFraction es))"
    by (rule Min.set_eq_fold [symmetric])
  finally show "group_remainingFraction g
        = Min (set (map entry_remainingFraction (quotaEntries S models d)))"
    by (simp add: q)
  show "group_resetTime g =
           (case ovr of Some t \<Rightarrow> Some t
            | None \<Rightarrow> findTruthy (map entry_resetTime (quotaEntries S models d)))"
    using g by (cases ovr) (simp_all add: buildGroup_def q Let_def)
qed

lemma filter_pushed:
  "filter (\<lambda>g. group_id g = k) (pushed (buildGroup S models d ovr))
   = (if def_id d = k then pushed (buildGroup S models d ovr) else [])"
  by (cases "buildGroup S models d ovr") (auto simp: pushed_def dest: buildGroup_Some(1))

lemma def_ids:
  "def_id claudeDef = ''claude-gpt''" "def_id geminiDef = ''gemini''"
  "def_id flashDef = ''gemini-3-flash''" "def_id imageDef = ''gemini-image''"
  by (simp_all add: claudeDef_def geminiDef_def flashDef_def imageDef_def)

text \<open>The groups of one catalog entry in the output: what \<open>buildGroup\<close> gave for it.\<close>

lemma filter_groups:
  assumes "d \<in> set ANTIGRAVITY_QUOTA_GROUPS"
  shows "\<exists>ovr. filter (\<lambda>g. group_id g = def_id d) (buildAntigravityQuotaGroups S models)
         = pushed (buildGroup S models d ovr)"
proof -
  have "d = claudeDef \<or> d = geminiDef \<or> d = flashDef \<or> d = imageDef"
    using assms by (simp add: ANTIGRAVITY_QUOTA_GROUPS_def)
  then show ?thesis
  proof (elim disjE)
    assume "d = claudeDef"
    then have "filter (\<lambda>g. group_id g = def_id d) (buildAntigravityQuotaGroups S models)
         = pushed (buildGroup S models d None)"
      by (simp add: buildAntigravityQuotaGroups_def filter_pushed def_ids)
    then show ?thesis by blast
  next
    assume "d = geminiDef"
    then have "filter (\<lambda>g. group_id g = def_id d) (buildAntigravityQuotaGroups S models)
         = pushed (buildGroup S models d None)"
      by (simp add: buildAntigravityQuotaGroups_def filter_pushed def_ids)
    then show ?thesis by blast
  next
    assume "d = flashDef"
    then have "filter (\<lambda>g. group_id g = def_id d) (buildAntigravityQuotaGroups S models)
         = pushed (buildGroup S models d None)"
      by (simp add: buildAntigravityQuotaGroups_def filter_pushed def_ids)
    then show ?thesis by blast
  next
    assume "d = imageDef"
    then have "filter (\<lambda>g. group_id g = def_id d) (buildAntigravityQuotaGroups S models)
         = pushed (buildGroup S models d (geminiResetTime S models))"
      by (simp add: buildAntigravityQuotaGroups_def filter_pushed def_ids)
    then show ?thesis by blast
  qed
qed

lemmas eval_groups =
  buildAntigravityQuotaGroups_def buildGroup_def quotaEntries_def groupMatches_def
  matchingFractions_def findAntigravityModel_def pushed_def List.map_filter_simps
  claudeDef_def geminiDef_def flashDef_def imageDef_def geminiResetTime_def
  model_entry_def toQuotaEntry_def getAntigravityQuotaInfo_def nullish_def
  stringOrUndefined_def toLowerCase_def toLowerChar_def Let_def

lemma groups_of_claude_models:
  "buildAntigravityQuotaGroups no_strings claude_models = [claude_group]"
  by (simp add: eval_groups claude_models_def claude_group_def)

lemma groups_of_gemini_models:
  "buildAntigravityQuotaGroups no_strings gemini_models = [gemini_group, image_group]"
  by (simp add: eval_groups gemini_models_def gemini_group_def image_group_def)

lemma groups_of_no_models:
  "buildAntigravityQuotaGroups S [] = []"
  by (simp add: eval_groups)

text \<open>
  C3. For each group of the catalog: when none of its identifiers finds a model entry
  with a parseable remaining fraction, the output has no group of that id; when at least
  one does, the output has exactly one group of that id, and its \<open>remainingFraction\<close> is
  the minimum of the remaining fractions of the matching entries.
\<close>

theorem antigravity_group_minimum:
  assumes "d \<in> set ANTIGRAVITY_QUOTA_GROUPS"
  shows "(matchingFractions S models d = [] \<longrightarrow>
            filter (\<lambda>g. group_id g = def_id d) (buildAntigravityQuotaGroups S models) = [])
       \<and> (matchingFractions S models d \<noteq> [] \<longrightarrow>
            (\<exists>g. filter (\<lambda>g. group_id g = def_id d) (buildAntigravityQuotaGroups S models) = [g]
                \<and> group_remainingFraction g = Min (set (matchingFractions S models d))))"
proof -
  obtain ovr where f:
    "filter (\<lambda>g. group_id g = def_id d) (buildAntigravityQuotaGroups S models)
     = pushed (buildGroup S models d ovr)"
    using filter_groups [OF assms] by blast
  show ?thesis
  proof (cases "buildGroup S models d ovr")
    case None
    then have "matchingFractions S models d = []"
      using buildGroup_None_iff [of S models d ovr] fractions_of_entries [of S models d] by simp
    with None f show ?thesis
      by (simp add: pushed_def)
  next
    case (Some g)
    then have "quotaEntries S models d \<noteq> []"
      using buildGroup_None_iff [of S models d ovr] by simp
    then have ne: "matchingFractions S models d \<noteq> []"
      using fractions_of_entries [of S models d] by auto
    have "group_remainingFraction g = Min (set (matchingFractions S models d))"
      using buildGroup_Some(2) [OF Some] fractions_of_entries [of S models d] by simp
    with Some f ne show ?thesis
      by (simp add: pushed_def)
  qed
qed

theorem antigravity_group_minimum_witness:
  "claudeDef \<in> set ANTIGRAVITY_QUOTA_GROUPS
   \<and> matchingFractions no_strings claude_models claudeDef = [4 / 5, 3 / 10]
   \<and> filter (\<lambda>g. group_id g = def_id claudeDef)
        (buildAntigravityQuotaGroups no_strings claude_models) = [claude_group]
   \<and> group_remainingFraction claude_group = 3 / 10
   \<and> Min (set (matchingFractions no_strings claude_models claudeDef)) = 3 / 10
   \<and> matchingFractions no_strings [] claudeDef = []
   \<and> filter (\<lambda>g. group_id g = def_id claudeDef) (buildAntigravityQuotaGroups no_strings []) = []"
proof -
  have mem: "claudeDef \<in> set ANTIGRAVITY_QUOTA_GROUPS"
    by (simp add: ANTIGRAVITY_QUOTA_GROUPS_def)
  have fr: "matchingFractions no_strings claude_models claudeDef = [4 / 5, 3 / 10]"
    by (simp add: eval_groups claude_models_def)
  have none: "matchingFractions no_strings [] claudeDef = []"
    by (simp add: eval_groups)
  have gid: "group_id claude_group = def_id claudeDef"
    "group_remainingFraction claude_group = 3 / 10"
    by (simp_all add: claude_group_def claudeDef_def)
  show ?thesis
    using antigravity_group_minimum [OF mem, of no_strings claude_models]
      antigravity_group_minimum [OF mem, of no_strings "[]"]
      mem fr none gid groups_of_claude_models groups_of_no_models [of no_strings]
    by simp
qed

lemma geminiResetTime_eq:
  "geminiResetTime S models = findTruthy (map entry_resetTime (quotaEntries S models geminiDef))"
proof (cases "buildGroup S models geminiDef None")
  case None
  then show ?thesis
    using buildGroup_None_iff [of S models geminiDef None] by (simp add: geminiResetTime_def)
next
  case (Some g)
  then show ?thesis
    using buildGroup_Some(3) [OF Some] by (simp add: geminiResetTime_def)
qed

lemma in_groups:
  assumes "g \<in> set (buildAntigravityQuotaGroups S models)"
  shows "buildGroup S models claudeDef None = Some g
     \<or> buildGroup S models geminiDef None = Some g
     \<or> buildGroup S models flashDef None = Some g
     \<or> buildGroup S models imageDef (geminiResetTime S models) = Some g"
  using assms
  by (auto simp: buildAntigravityQuotaGroups_def pushed_def split: option.splits)

text \<open>\<open>findTruthy\<close> returns a string that is in the list and is not empty.\<close>

lemma findTruthy_Some: "findTruthy xs = Some s \<Longrightarrow> Some s \<in> set xs \<and> s \<noteq> []"
  by (induction xs rule: findTruthy.induct) (auto split: if_splits)

text \<open>
  C4, as amended. The reset time of an emitted Claude/GPT, Gemini or Gemini 3 Flash
  group is the first non-empty reset time among its constituent entries. The reset time
  of the emitted image group is the reset time of the Gemini group whenever the Gemini
  constituents have one, and only otherwise the first non-empty reset time among its own
  constituents.
\<close>

theorem antigravity_group_reset_time:
  assumes "g \<in> set (buildAntigravityQuotaGroups S models)"
  shows "(group_id g = def_id claudeDef \<longrightarrow>
            group_resetTime g = findTruthy (map entry_resetTime (quotaEntries S models claudeDef)))
       \<and> (group_id g = def_id geminiDef \<longrightarrow>
            group_resetTime g = findTruthy (map entry_resetTime (quotaEntries S models geminiDef)))
       \<and> (group_id g = def_id flashDef \<longrightarrow>
            group_resetTime g = findTruthy (map entry_resetTime (quotaEntries S models flashDef)))
       \<and> (group_id g = def_id imageDef \<longrightarrow>
            group_resetTime g =
              (case findTruthy (map entry_resetTime (quotaEntries S models geminiDef)) of
                 Some t \<Rightarrow> Some t
               | None \<Rightarrow> findTruthy (map entry_resetTime (quotaEntries S models imageDef))))"
proof -
  consider (c) "buildGroup S models claudeDef None = Some g"
    | (g) "buildGroup S models geminiDef None = Some g"
    | (f) "buildGroup S models flashDef None = Some g"
    | (i) "buildGroup S models imageDef (geminiResetTime S models) = Some g"
    using in_groups [OF assms] by blast
  then show ?thesis
  proof cases
    case c
    show ?thesis
      using buildGroup_Some(1) [OF c] buildGroup_Some(3) [OF c] by (simp add: def_ids)
  next
    case g
    show ?thesis
      using buildGroup_Some(1) [OF g] buildGroup_Some(3) [OF g] by (simp add: def_ids)
  next
    case f
    show ?thesis
      using buildGroup_Some(1) [OF f] buildGroup_Some(3) [OF f] by (simp add: def_ids)
  next
    case i
    show ?thesis
      using buildGroup_Some(1) [OF i] buildGroup_Some(3) [OF i]
      by (simp add: def_ids geminiResetTime_eq)
  qed
qed

lemma reset_times_of_examples:
  "map entry_resetTime (quotaEntries no_strings claude_models claudeDef)
   = [None, Some ''2026-01-01T00:00:00Z'']"
  "map entry_resetTime (quotaEntries no_strings gemini_models geminiDef)
   = [Some ''2026-01-01T00:00:00Z'']"
  "map entry_resetTime (quotaEntries no_strings gemini_models imageDef)
   = [Some ''2026-02-02T00:00:00Z'']"
  by (simp_all add: eval_groups claude_models_def gemini_models_def)

theorem antigravity_group_reset_time_witness:
  "claude_group \<in> set (buildAntigravityQuotaGroups no_strings claude_models)
   \<and> group_id claude_group = def_id claudeDef
   \<and> group_resetTime claude_group = Some ''2026-01-01T00:00:00Z''
   \<and> findTruthy (map entry_resetTime (quotaEntries no_strings claude_models claudeDef))
       = Some ''2026-01-01T00:00:00Z''
   \<and> image_group \<in> set (buildAntigravityQuotaGroups no_strings gemini_models)
   \<and> group_id image_group = def_id imageDef
   \<and> findTruthy (map entry_resetTime (quotaEntries no_strings gemini_models geminiDef))
       = Some ''2026-01-01T00:00:00Z''
   \<and> group_resetTime image_group = Some ''2026-01-01T00:00:00Z''"
proof -
  have c: "claude_group \<in> set (buildAntigravityQuotaGroups no_strings claude_models)"
    by (simp add: groups_of_claude_models)
  have i: "image_group \<in> set (buildAntigravityQuotaGroups no_strings gemini_models)"
    by (simp add: groups_of_gemini_models)
  have ids: "group_id claude_group = def_id claudeDef" "group_id image_group = def_id imageDef"
    by (simp_all add: claude_group_def image_group_def def_ids)
  show ?thesis
    using antigravity_group_reset_time [OF c] antigravity_group_reset_time [OF i]
      c i ids reset_times_of_examples
    by simp
qed

text \<open>
  The claim as stated fails for a payload in which a Gemini model and the image model
  both carry a reset time: the image group is emitted with the reset time of the Gemini
  group, not with the reset time of its own constituent.
\<close>

theorem image_group_reset_time_counterexample:
  "image_group \<in> set (buildAntigravityQuotaGroups no_strings gemini_models)
   \<and> group_id image_group = def_id imageDef
   \<and> findTruthy (map entry_resetTime (quotaEntries no_strings gemini_models imageDef))
       = Some ''2026-02-02T00:00:00Z''
   \<and> group_resetTime image_group = Some ''2026-01-01T00:00:00Z''
   \<and> group_resetTime image_group
       \<noteq> findTruthy (map entry_resetTime (quotaEntries no_strings gemini_models imageDef))"
  by (simp add: groups_of_gemini_models reset_times_of_examples def_ids image_group_def)



section \<open>Properties of the Antigravity quota probe\<close>

lemma probe_Usable_iff:
  "(\<exists>g. probeUrl env idx url = Usable g) \<longleftrightarrow> \<not> softFailure env idx url"
  by (auto simp: probeUrl_def softFailure_def Let_def
        split: api_result.splits models_member.splits if_splits)

lemma probe_Failed_iff:
  "(\<exists>e. probeUrl env idx url = Failed e) \<longleftrightarrow> \<not> got2xx env idx url"
  by (auto simp: probeUrl_def got2xx_def Let_def
        split: api_result.splits models_member.splits if_splits)

lemma probe_Usable_groups:
  assumes "request env idx url = Resolved r"
    and "200 \<le> statusCode r" and "statusCode r < 300"
    and "responseModels env r = ModelsObject m"
    and "buildAntigravityQuotaGroups (StringToNumber env) m \<noteq> []"
  shows "probeUrl env idx url = Usable (buildAntigravityQuotaGroups (StringToNumber env) m)"
  using assms by (simp add: probeUrl_def Let_def)

text \<open>Without a 2xx answer the loop ends in the \<open>throw\<close>.\<close>

lemma fetchLoop_throws:
  "\<forall>u\<in>set urls. \<not> got2xx env idx u \<Longrightarrow> \<exists>e. fetchLoop env idx urls le False = Inl e"
proof (induction urls arbitrary: le)
  case Nil
  then show ?case by simp
next
  case (Cons u urls)
  then obtain e where "probeUrl env idx u = Failed e"
    using probe_Failed_iff [of env idx u] by auto
  with Cons show ?case by simp
qed

text \<open>The loop only throws when no URL, before or during the loop, answered 2xx.\<close>

lemma fetchLoop_Inl:
  "fetchLoop env idx urls le hs = Inl e \<Longrightarrow> \<not> hs \<and> (\<forall>u\<in>set urls. \<not> got2xx env idx u)"
proof (induction urls arbitrary: le hs)
  case Nil
  then show ?case by (simp split: if_splits)
next
  case (Cons u urls)
  show ?case
  proof (cases "probeUrl env idx u")
    case (Failed e')
    then have "\<not> got2xx env idx u"
      using probe_Failed_iff [of env idx u] by auto
    moreover have "fetchLoop env idx urls e' hs = Inl e"
      using Cons.prems Failed by simp
    ultimately show ?thesis
      using Cons.IH by auto
  next
    case (Empty e')
    then have "fetchLoop env idx urls e' True = Inl e"
      using Cons.prems by simp
    then show ?thesis
      using Cons.IH by blast
  next
    case (Usable g)
    then show ?thesis
      using Cons.prems by simp
  qed
qed

lemma fetchLoop_empty:
  "\<forall>u\<in>set urls. softFailure env idx u \<Longrightarrow> hs \<or> (\<exists>u\<in>set urls. got2xx env idx u) \<Longrightarrow>
   fetchLoop env idx urls le hs = Inr []"
proof (induction urls arbitrary: le hs)
  case Nil
  then show ?case by simp
next
  case (Cons u urls)
  have soft: "softFailure env idx u"
    using Cons.prems(1) by simp
  show ?case
  proof (cases "probeUrl env idx u")
    case (Failed e')
    then have "\<not> got2xx env idx u"
      using probe_Failed_iff [of env idx u] by auto
    then have "hs \<or> (\<exists>u\<in>set urls. got2xx env idx u)"
      using Cons.prems(2) by auto
    then show ?thesis
      using Cons.IH [of hs e'] Cons.prems(1) Failed by simp
  next
    case (Empty e')
    then show ?thesis
      using Cons.IH [of True e'] Cons.prems(1) by simp
  next
    case (Usable g)
    then show ?thesis
      using soft probe_Usable_iff [of env idx u] by auto
  qed
qed

lemma fetchLoop_falls_through:
  "\<forall>v\<in>set pre. softFailure env idx v \<Longrightarrow> probeUrl env idx u = Usable g \<Longrightarrow>
   fetchLoop env idx (pre @ u # post) le hs = Inr g"
proof (induction pre arbitrary: le hs)
  case Nil
  then show ?case by simp
next
  case (Cons v pre)
  have "softFailure env idx v"
    using Cons.prems(1) by simp
  then have nu: "\<And>g'. probeUrl env idx v \<noteq> Usable g'"
    using probe_Usable_iff [of env idx v] by auto
  show ?case
  proof (cases "probeUrl env idx v")
    case (Failed e')
    then show ?thesis using Cons by simp
  next
    case (Empty e')
    then show ?thesis using Cons by simp
  next
    case (Usable g')
    then show ?thesis using nu by simp
  qed
qed

text \<open>
  C5. \<open>fetchAntigravityQuota\<close> goes through the candidate URLs in their order. When the
  URLs before one fail softly (the call throws, the status is not 2xx, or the 2xx
  response has no model map that gives a group) and that one answers 2xx with a model map
  that gives groups, the result is those groups. It throws when no URL answers 2xx, and
  only then. When every URL fails softly and at least one answered 2xx, it returns the
  empty list.
\<close>

theorem fetchAntigravityQuota_outcomes:
  "(ANTIGRAVITY_QUOTA_URLS = pre @ url # post
      \<and> (\<forall>v\<in>set pre. softFailure env idx v)
      \<and> request env idx url = Resolved r \<and> 200 \<le> statusCode r \<and> statusCode r < 300
      \<and> responseModels env r = ModelsObject m
      \<and> buildAntigravityQuotaGroups (StringToNumber env) m \<noteq> []
    \<longrightarrow> fetchAntigravityQuota env idx
          = Inr (buildAntigravityQuotaGroups (StringToNumber env) m))
   \<and> ((\<forall>u\<in>set ANTIGRAVITY_QUOTA_URLS. \<not> got2xx env idx u)
        \<longrightarrow> (\<exists>e. fetchAntigravityQuota env idx = Inl e))
   \<and> (fetchAntigravityQuota env idx = Inl e
        \<longrightarrow> (\<forall>u\<in>set ANTIGRAVITY_QUOTA_URLS. \<not> got2xx env idx u))
   \<and> ((\<forall>u\<in>set ANTIGRAVITY_QUOTA_URLS. softFailure env idx u)
        \<and> (\<exists>u\<in>set ANTIGRAVITY_QUOTA_URLS. got2xx env idx u)
        \<longrightarrow> fetchAntigravityQuota env idx = Inr [])"
proof -
  have first: "fetchAntigravityQuota env idx
        = Inr (buildAntigravityQuotaGroups (StringToNumber env) m)"
    if "ANTIGRAVITY_QUOTA_URLS = pre @ url # post"
      and "\<forall>v\<in>set pre. softFailure env idx v"
      and "request env idx url = Resolved r" and "200 \<le> statusCode r" and "statusCode r < 300"
      and "responseModels env r = ModelsObject m"
      and "buildAntigravityQuotaGroups (StringToNumber env) m \<noteq> []"
  proof -
    have "probeUrl env idx url = Usable (buildAntigravityQuotaGroups (StringToNumber env) m)"
      using that(3-7) by (rule probe_Usable_groups)
    then show ?thesis
      using fetchLoop_falls_through [OF that(2), of url _ post "[]" False] that(1)
      by (simp add: fetchAntigravityQuota_def)
  qed
  have second: "\<exists>e. fetchAntigravityQuota env idx = Inl e"
    if "\<forall>u\<in>set ANTIGRAVITY_QUOTA_URLS. \<not> got2xx env idx u"
    using fetchLoop_throws [OF that] by (simp add: fetchAntigravityQuota_def)
  have third: "\<forall>u\<in>set ANTIGRAVITY_QUOTA_URLS. \<not> got2xx env idx u"
    if "fetchAntigravityQuota env idx = Inl e"
    using fetchLoop_Inl [of env idx ANTIGRAVITY_QUOTA_URLS "[]" False e] that
    by (simp add: fetchAntigravityQuota_def)
  have fourth: "fetchAntigravityQuota env idx = Inr []"
    if "\<forall>u\<in>set ANTIGRAVITY_QUOTA_URLS. softFailure env idx u"
      and "\<exists>u\<in>set ANTIGRAVITY_QUOTA_URLS. got2xx env idx u"
    using fetchLoop_empty [OF that(1), of False "[]"] that(2)
    by (simp add: fetchAntigravityQuota_def)
  show ?thesis
    using first second third fourth by blast
qed


text \<open>The three upstreams of the examples, evaluated.\<close>

lemma mirrors: "ANTIGRAVITY_QUOTA_URLS = [mirror_1, mirror_2, mirror_3]"
  by (simp add: ANTIGRAVITY_QUOTA_URLS_def mirror_1_def mirror_2_def mirror_3_def)

lemma mirrors_distinct: "mirror_1 \<noteq> mirror_2" "mirror_1 \<noteq> mirror_3" "mirror_2 \<noteq> mirror_3"
   "mirror_2 \<noteq> mirror_1" "mirror_3 \<noteq> mirror_1" "mirror_3 \<noteq> mirror_2"
  by (simp_all add: mirror_1_def mirror_2_def mirror_3_def)

lemma requests_third:
  "request (example_env third_mirror_answers) idx mirror_1 = Rejected (Some ''timeout'')"
  "request (example_env third_mirror_answers) idx mirror_2
     = Resolved \<lparr>statusCode = 503, body = BodyAbsent, bodyText = None\<rparr>"
  "request (example_env third_mirror_answers) idx mirror_3 = Resolved answer_200"
  by (simp_all add: example_env_def third_mirror_answers_def mirrors_distinct)

lemma requests_second:
  "request (example_env second_mirror_empty) idx mirror_1
     = Resolved \<lparr>statusCode = 404, body = BodyAbsent, bodyText = None\<rparr>"
  "request (example_env second_mirror_empty) idx mirror_2
     = Resolved \<lparr>statusCode = 200, body = BodyAbsent, bodyText = Some []\<rparr>"
  "request (example_env second_mirror_empty) idx mirror_3 = Rejected (Some ''timeout'')"
  by (simp_all add: example_env_def second_mirror_empty_def mirrors_distinct)

lemma requests_none:
  "request (example_env no_mirror_answers) idx url = Rejected (Some ''timeout'')"
  by (simp add: example_env_def no_mirror_answers_def)

lemma soft_third:
  "softFailure (example_env third_mirror_answers) idx mirror_1"
  "softFailure (example_env third_mirror_answers) idx mirror_2"
  by (simp_all add: softFailure_def requests_third)

lemma models_third:
  "responseModels (example_env third_mirror_answers) answer_200 = ModelsObject claude_models"
  by (simp add: responseModels_def answer_200_def parseAntigravityPayload_def)

lemma soft_second:
  "softFailure (example_env second_mirror_empty) idx mirror_1"
  "softFailure (example_env second_mirror_empty) idx mirror_2"
  "softFailure (example_env second_mirror_empty) idx mirror_3"
  by (simp_all add: softFailure_def requests_second responseModels_def
        parseAntigravityPayload_def trim_def)

lemma got_second: "got2xx (example_env second_mirror_empty) idx mirror_2"
  by (simp add: got2xx_def requests_second)

lemma got_none: "\<not> got2xx (example_env no_mirror_answers) idx url"
  by (simp add: got2xx_def requests_none)

theorem fetchAntigravityQuota_outcomes_witness:
  "softFailure (example_env third_mirror_answers) ''3'' mirror_1
   \<and> softFailure (example_env third_mirror_answers) ''3'' mirror_2
   \<and> request (example_env third_mirror_answers) ''3'' mirror_3 = Resolved answer_200
   \<and> statusCode answer_200 = 200
   \<and> responseModels (example_env third_mirror_answers) answer_200 = ModelsObject claude_models
   \<and> fetchAntigravityQuota (example_env third_mirror_answers) ''3'' = Inr [claude_group]
   \<and> \<not> got2xx (example_env no_mirror_answers) ''3'' mirror_1
   \<and> \<not> got2xx (example_env no_mirror_answers) ''3'' mirror_2
   \<and> \<not> got2xx (example_env no_mirror_answers) ''3'' mirror_3
   \<and> fetchAntigravityQuota (example_env no_mirror_answers) ''3'' = Inl ''timeout''
   \<and> softFailure (example_env second_mirror_empty) ''3'' mirror_1
   \<and> softFailure (example_env second_mirror_empty) ''3'' mirror_2
   \<and> softFailure (example_env second_mirror_empty) ''3'' mirror_3
   \<and> got2xx (example_env second_mirror_empty) ''3'' mirror_2
   \<and> fetchAntigravityQuota (example_env second_mirror_empty) ''3'' = Inr []"
proof -
  note first = fetchAntigravityQuota_outcomes [THEN conjunct1, rule_format]
  note fourth = fetchAntigravityQuota_outcomes
                  [THEN conjunct2, THEN conjunct2, THEN conjunct2, rule_format]
  have st: "statusCode answer_200 = 200"
    by (simp add: answer_200_def)
  have S: "StringToNumber (example_env third_mirror_answers) = no_strings"
    by (simp add: example_env_def)
  have "fetchAntigravityQuota (example_env third_mirror_answers) ''3''
        = Inr (buildAntigravityQuotaGroups
                 (StringToNumber (example_env third_mirror_answers)) claude_models)"
    by (rule first [where pre = "[mirror_1, mirror_2]" and url = mirror_3 and post = "[]"
                      and r = answer_200])
       (simp add: mirrors soft_third requests_third models_third st S groups_of_claude_models)
  then have r1: "fetchAntigravityQuota (example_env third_mirror_answers) ''3'' = Inr [claude_group]"
    by (simp add: S groups_of_claude_models)
  have r2: "fetchAntigravityQuota (example_env second_mirror_empty) ''3'' = Inr []"
    by (rule fourth) (simp add: mirrors soft_second got_second)
  have r3: "fetchAntigravityQuota (example_env no_mirror_answers) ''3'' = Inl ''timeout''"
    by (simp add: fetchAntigravityQuota_def mirrors probeUrl_def requests_none
          errorMessageOr_def)
  show ?thesis
    using r1 r2 r3 st soft_third requests_third models_third got_none soft_second got_second
    by simp
qed

end
